theory Spec2Isabelle
  imports Complex_Main "HOL-Library.Log_Nat"
begin

section \<open>The stock notification system\<close>

text \<open>
  A shallow embedding of \<^verbatim>\<open>notification.py\<close>: the class \<^verbatim>\<open>NotificationSystem\<close> with
  its methods \<^verbatim>\<open>get_prev_close_prices\<close>, \<^verbatim>\<open>check_price\<close>, \<^verbatim>\<open>send_sms\<close> and
  \<^verbatim>\<open>start_monitoring\<close>.

  A price is a rational number, read as the exact value of a finite float64; a price
  that is \<^verbatim>\<open>None\<close>, infinite or NaN is outside the model. The percentage change of
  line 68 is kept only for its comparison with 1 and for its sign, and \<open>check_one\<close>
  decides both on the exact quotient. The value that float64 arithmetic gives to the
  same expression is \<open>pct_change_float64\<close>.
\<close>

subsection \<open>Data\<close>

text \<open>
  The fields of the object that the methods read or write. The Twilio client itself is
  an external collaborator and lives in the \<open>world\<close> below. The two phone numbers come
  from \<^verbatim>\<open>os.getenv\<close>, which yields \<^verbatim>\<open>None\<close> for an unset variable.
\<close>

record NotificationSystem =
  tickers :: "string list"
  prev_close_prices :: "string \<rightharpoonup> rat"
  twilio_number :: "string option"
  phone_number :: "string option"

text \<open>\<^verbatim>\<open>__init__\<close>: the table of previous closes starts out empty.\<close>

definition init :: "string list \<Rightarrow> string option \<Rightarrow> string option \<Rightarrow> NotificationSystem" where
  "init tks from_no to_no =
     \<lparr>tickers = tks, prev_close_prices = Map.empty,
      twilio_number = from_no, phone_number = to_no\<rparr>"

text \<open>
  What \<^verbatim>\<open>stock.fast_info['last_price']\<close> does: it yields a price, raises
  \<^verbatim>\<open>KeyError\<close>, or raises some other exception (named by a string).
\<close>

datatype fetch = Price rat | NoKey | Fails string

text \<open>
  The exceptions that leave a method: a \<^verbatim>\<open>KeyError\<close> for a missing dictionary key,
  another exception of the market-data query, an exception of the Twilio client.
\<close>

datatype error = KeyError string | MarketDataError string | TransportError string

text \<open>
  The external collaborators as seen during one method call.
  \<^item> \<open>history\<close>: the \<^verbatim>\<open>Close\<close> column of \<^verbatim>\<open>stock.history(period='1d')\<close>, oldest row
    first; the empty list is the empty frame.
  \<^item> \<open>last_price\<close>: the current-price lookup.
  \<^item> \<open>now\<close>: the formatted clock reading taken when the message of a ticker is built.
  \<^item> \<open>messages_create\<close>: \<^verbatim>\<open>client.messages.create(body, from_, to)\<close>; \<open>None\<close> when
    the call returns, \<open>Some e\<close> when it raises \<open>e\<close>.
\<close>

record world =
  history :: "string \<Rightarrow> rat list"
  last_price :: "string \<Rightarrow> fetch"
  now :: "string \<Rightarrow> string"
  messages_create :: "string \<Rightarrow> string option \<Rightarrow> string option \<Rightarrow> string option"

text \<open>The observable effects of a call, in the order in which they happen.\<close>

datatype event =
    History string
  | FastInfo string
  | Print string
  | Sms string "string option" "string option"
  | Sleep nat

text \<open>
  The outcome of a method call: the object afterwards, the effects, and the exception
  that left the method, if any. A Python object keeps its fields when a method raises.
\<close>

record outcome =
  state :: NotificationSystem
  events :: "event list"
  raised :: "error option"

definition returns :: "NotificationSystem \<Rightarrow> event list \<Rightarrow> outcome" where
  "returns s evs = \<lparr>state = s, events = evs, raised = None\<rparr>"

definition raises :: "NotificationSystem \<Rightarrow> event list \<Rightarrow> error \<Rightarrow> outcome" where
  "raises s evs e = \<lparr>state = s, events = evs, raised = Some e\<rparr>"

text \<open>\<open>after evs r\<close>: the effects \<open>evs\<close> happened before the call with outcome \<open>r\<close>.\<close>

definition after :: "event list \<Rightarrow> outcome \<Rightarrow> outcome" where
  "after evs r = r\<lparr>events := evs @ events r\<rparr>"

subsection \<open>\<^verbatim>\<open>get_prev_close_prices\<close>\<close>

definition no_history_msg :: "string \<Rightarrow> string" where
  "no_history_msg ticker = ''No historical data available for '' @ ticker @ ''. Skipping...''"

text \<open>
  The previous close taken from a non-empty frame: \<^verbatim>\<open>iloc[0]\<close> with two rows or more,
  \<^verbatim>\<open>iloc[-1]\<close> otherwise.
\<close>

definition prev_close_of :: "rat list \<Rightarrow> rat" where
  "prev_close_of hist = (if length hist \<ge> 2 then hist ! 0 else last hist)"

text \<open>The loop over \<^verbatim>\<open>self.tickers\<close>; an empty frame prints and continues.\<close>

fun get_prev_close_loop :: "world \<Rightarrow> string list \<Rightarrow> NotificationSystem \<Rightarrow> outcome" where
  "get_prev_close_loop w [] s = returns s []"
| "get_prev_close_loop w (ticker # rest) s =
     (let hist = history w ticker in
      if hist = [] then
        after [History ticker, Print (no_history_msg ticker)] (get_prev_close_loop w rest s)
      else
        after [History ticker]
          (get_prev_close_loop w rest
             (s\<lparr>prev_close_prices := (prev_close_prices s)(ticker \<mapsto> prev_close_of hist)\<rparr>)))"

definition get_prev_close_prices :: "world \<Rightarrow> NotificationSystem \<Rightarrow> outcome" where
  "get_prev_close_prices w s = get_prev_close_loop w (tickers s) s"

subsection \<open>\<^verbatim>\<open>send_sms\<close>\<close>

definition send_sms :: "world \<Rightarrow> NotificationSystem \<Rightarrow> string \<Rightarrow> outcome" where
  "send_sms w s message =
     (case messages_create w message (twilio_number s) (phone_number s) of
        None \<Rightarrow> returns s [Sms message (twilio_number s) (phone_number s)]
      | Some e \<Rightarrow> raises s [Sms message (twilio_number s) (phone_number s)] (TransportError e))"

subsection \<open>\<^verbatim>\<open>check_price\<close>\<close>

definition no_price_msg :: "string \<Rightarrow> string" where
  "no_price_msg ticker = ''Unable to fetch the current price for '' @ ticker @ ''.''"

definition pct_change :: "rat \<Rightarrow> rat \<Rightarrow> rat" where
  "pct_change current_price prev_close = ((current_price - prev_close) / prev_close) * 100"

definition direction :: "rat \<Rightarrow> string" where
  "direction pct = (if pct > 0 then ''rise'' else ''drop'')"

definition alert_msg :: "string \<Rightarrow> string \<Rightarrow> string \<Rightarrow> string" where
  "alert_msg ticker dir stamp = ticker @ '': '' @ dir @ '' >= 1%, Timestamp: '' @ stamp"

text \<open>
  The body of the loop for one ticker. Only the price lookup is inside the
  \<^verbatim>\<open>try\<close>, and only \<^verbatim>\<open>KeyError\<close> is caught there; the lookup of the previous close
  is outside of it.

  The previous close is a numpy float64, the \<^verbatim>\<open>iloc\<close> of a pandas column, so a zero
  previous close raises nothing: for a price other than zero the quotient is plus or
  minus infinity, which passes the threshold and carries the sign of the price; for a
  zero price it is NaN, which passes no comparison. (numpy reports the division as a
  warning, which is not among the effects of the model.)
\<close>

definition check_one :: "world \<Rightarrow> NotificationSystem \<Rightarrow> string \<Rightarrow> outcome" where
  "check_one w s ticker =
     (case last_price w ticker of
        NoKey \<Rightarrow> returns s [FastInfo ticker, Print (no_price_msg ticker)]
      | Fails e \<Rightarrow> raises s [FastInfo ticker] (MarketDataError e)
      | Price current_price \<Rightarrow>
          (case prev_close_prices s ticker of
             None \<Rightarrow> raises s [FastInfo ticker] (KeyError ticker)
           | Some prev_close \<Rightarrow>
               if prev_close = 0 then
                 (if current_price = 0 then returns s [FastInfo ticker]
                  else
                    after [FastInfo ticker]
                      (send_sms w s
                         (alert_msg ticker (if current_price > 0 then ''rise'' else ''drop'')
                            (now w ticker))))
               else
                 (let pct = pct_change current_price prev_close in
                  if \<bar>pct\<bar> \<ge> 1 then
                    after [FastInfo ticker]
                      (send_sms w s (alert_msg ticker (direction pct) (now w ticker)))
                  else returns s [FastInfo ticker])))"

text \<open>The loop over \<^verbatim>\<open>self.tickers\<close>: an exception of the body ends it.\<close>

fun check_loop :: "world \<Rightarrow> string list \<Rightarrow> NotificationSystem \<Rightarrow> outcome" where
  "check_loop w [] s = returns s []"
| "check_loop w (ticker # rest) s =
     (let r = check_one w s ticker in
      case raised r of
        Some e \<Rightarrow> r
      | None \<Rightarrow> after (events r) (check_loop w rest (state r)))"

definition check_price :: "world \<Rightarrow> NotificationSystem \<Rightarrow> outcome" where
  "check_price w s = check_loop w (tickers s) s"

subsection \<open>\<^verbatim>\<open>start_monitoring\<close>\<close>

text \<open>
  The \<^verbatim>\<open>while True\<close> loop never returns, so it is observed for a number of rounds:
  \<open>monitor_loop due ws i n s\<close> runs the rounds \<open>i, \<dots>, i + n - 1\<close>. The scheduling library
  is a parameter: \<open>due i\<close> says whether \<^verbatim>\<open>schedule.run_pending()\<close> finds the job due in
  round \<open>i\<close>, and \<open>ws i\<close> is the world of that round. \<^verbatim>\<open>run_pending\<close> does not catch what
  the job raises. An outcome without exception after \<open>n\<close> rounds is a loop still running.
\<close>

fun monitor_loop :: "(nat \<Rightarrow> bool) \<Rightarrow> (nat \<Rightarrow> world) \<Rightarrow> nat \<Rightarrow> nat \<Rightarrow> NotificationSystem \<Rightarrow> outcome" where
  "monitor_loop due ws i 0 s = returns s []"
| "monitor_loop due ws i (Suc n) s =
     (if due i then
        (let r = check_price (ws i) s in
         case raised r of
           Some e \<Rightarrow> r
         | None \<Rightarrow> after (events r @ [Sleep 1]) (monitor_loop due ws (Suc i) n (state r)))
      else after [Sleep 1] (monitor_loop due ws (Suc i) n s))"

definition start_monitoring ::
    "world \<Rightarrow> (nat \<Rightarrow> bool) \<Rightarrow> (nat \<Rightarrow> world) \<Rightarrow> nat \<Rightarrow> NotificationSystem \<Rightarrow> outcome" where
  "start_monitoring w0 due ws n s =
     (let r = get_prev_close_prices w0 s in
      case raised r of
        Some e \<Rightarrow> r
      | None \<Rightarrow> after (events r) (monitor_loop due ws 0 n (state r)))"

subsection \<open>Line 68 in float64\<close>

text \<open>
  IEEE 754 binary64 arithmetic on the finite values: an operation gives the exact result,
  rounded to 53 significant bits, to nearest with ties to even. \<open>None\<close> stands for a
  result that is not a normal finite number (overflow, a subnormal result), which is
  not modelled.
\<close>

definition pow2 :: "int \<Rightarrow> rat" where
  "pow2 e = (if e \<ge> 0 then 2 ^ nat e else 1 / 2 ^ nat (- e))"

definition round_half_even :: "rat \<Rightarrow> int" where
  "round_half_even m =
     (let f = \<lfloor>m\<rfloor>; r = m - of_int f in
      if r < 1 / 2 then f else if r > 1 / 2 then f + 1 else if even f then f else f + 1)"

text \<open>\<open>ilog2 a\<close> is the integer \<open>k\<close> with \<open>2 ^ k \<le> a < 2 ^ (k + 1)\<close>, for \<open>a > 0\<close>.\<close>

definition ilog2 :: "rat \<Rightarrow> int" where
  "ilog2 a =
     (if a \<ge> 1 then bitlen \<lfloor>a\<rfloor> - 1
      else (let k = bitlen \<lfloor>1 / a\<rfloor> in if a * pow2 (k - 1) = 1 then 1 - k else - k))"

text \<open>
  \<open>float64 x\<close>: the float64 nearest to \<open>x\<close>. With \<open>k = ilog2 \<bar>x\<bar>\<close> the significand
  \<open>\<bar>x\<bar> / 2 ^ (k - 52)\<close> lies between \<open>2 ^ 52\<close> and \<open>2 ^ 53\<close> and is rounded to an
  integer; the normal numbers have \<open>-1022 \<le> k \<le> 1023\<close>.
\<close>

definition float64 :: "rat \<Rightarrow> rat option" where
  "float64 x =
     (if x = 0 then Some 0
      else
        (let k = ilog2 \<bar>x\<bar>;
             n = round_half_even (\<bar>x\<bar> / pow2 (k - 52))
         in if k < - 1022 \<or> k > 1023 \<or> (k = 1023 \<and> n = 2 ^ 53) then None
            else Some (sgn x * of_int n * pow2 (k - 52))))"

text \<open>
  \<^verbatim>\<open>((current_price - prev_close) / prev_close) * 100\<close> on float64 operands: three
  operations, each rounded. The quotient by a zero previous close is not finite.
\<close>

definition pct_change_float64 :: "rat \<Rightarrow> rat \<Rightarrow> rat option" where
  "pct_change_float64 current_price prev_close =
     (case float64 (current_price - prev_close) of
        None \<Rightarrow> None
      | Some d \<Rightarrow>
          if prev_close = 0 then None
          else (case float64 (d / prev_close) of
                  None \<Rightarrow> None
                | Some q \<Rightarrow> float64 (q * 100)))"

subsection \<open>Reading a trace\<close>

text \<open>The bodies of the text messages handed to the transport, in order.\<close>

fun notifications :: "event list \<Rightarrow> string list" where
  "notifications [] = []"
| "notifications (Sms body from_no to_no # evs) = body # notifications evs"
| "notifications (ev # evs) = notifications evs"

text \<open>The tickers whose history was queried, in order.\<close>

fun history_queries :: "event list \<Rightarrow> string list" where
  "history_queries [] = []"
| "history_queries (History t # evs) = t # history_queries evs"
| "history_queries (ev # evs) = history_queries evs"

text \<open>The tickers whose current price was looked up, in order.\<close>

fun price_queries :: "event list \<Rightarrow> string list" where
  "price_queries [] = []"
| "price_queries (FastInfo t # evs) = t # price_queries evs"
| "price_queries (ev # evs) = price_queries evs"

subsection \<open>Concrete inputs\<close>

text \<open>
  The tickers of the script's \<^verbatim>\<open>__main__\<close>, with a market in which \<^verbatim>\<open>SPY\<close> has one
  day of history, \<^verbatim>\<open>QQQ\<close> two days and \<^verbatim>\<open>IWM\<close> none.
\<close>

definition example_history :: "string \<Rightarrow> rat list" where
  "example_history t =
     (if t = ''SPY'' then [100] else if t = ''QQQ'' then [199, 200] else [])"

text \<open>Three price feeds: one ticker without a price, every ticker at one price, a failing query.\<close>

definition feed_open :: "string \<Rightarrow> fetch" where
  "feed_open t =
     (if t = ''SPY'' then Price 101.5 else if t = ''QQQ'' then Price 197 else NoKey)"

definition feed_flat :: "rat \<Rightarrow> string \<Rightarrow> fetch" where
  "feed_flat p t = Price p"

definition feed_down :: "string \<Rightarrow> fetch" where
  "feed_down t = (if t = ''SPY'' then Fails ''ConnectionError'' else Price 100)"

text \<open>A world with the given price feed whose transport answers every call alike.\<close>

definition example_world :: "(string \<Rightarrow> fetch) \<Rightarrow> string option \<Rightarrow> world" where
  "example_world feed answer =
     \<lparr>history = example_history, last_price = feed,
      now = (\<lambda>t. ''2024-01-02 10:00:00''),
      messages_create = (\<lambda>body from_no to_no. answer)\<rparr>"

definition fresh_system :: NotificationSystem where
  "fresh_system = init [''SPY'', ''IWM'', ''QQQ''] (Some ''+15550100'') (Some ''+15550199'')"

definition started_system :: NotificationSystem where
  "started_system = fresh_system\<lparr>prev_close_prices := [''SPY'' \<mapsto> 100, ''QQQ'' \<mapsto> 199]\<rparr>"

text \<open>The same object with a previous close for every ticker.\<close>

definition tracked_system :: NotificationSystem where
  "tracked_system =
     fresh_system\<lparr>prev_close_prices := [''SPY'' \<mapsto> 100, ''IWM'' \<mapsto> 50, ''QQQ'' \<mapsto> 199]\<rparr>"

definition every_round :: "nat \<Rightarrow> bool" where
  "every_round i = True"

definition same_world :: "world \<Rightarrow> nat \<Rightarrow> world" where
  "same_world w i = w"

section \<open>Basic facts\<close>

lemma state_after [simp]: "state (after evs r) = state r"
  and events_after [simp]: "events (after evs r) = evs @ events r"
  and raised_after [simp]: "raised (after evs r) = raised r"
  by (simp_all add: after_def)

lemma state_returns [simp]: "state (returns s evs) = s"
  and events_returns [simp]: "events (returns s evs) = evs"
  and raised_returns [simp]: "raised (returns s evs) = None"
  by (simp_all add: returns_def)

lemma state_raises [simp]: "state (raises s evs e) = s"
  and events_raises [simp]: "events (raises s evs e) = evs"
  and raised_raises [simp]: "raised (raises s evs e) = Some e"
  by (simp_all add: raises_def)

lemma after_Nil [simp]: "after [] r = r"
  by (simp add: after_def)

lemma after_after [simp]: "after xs (after ys r) = after (xs @ ys) r"
  by (simp add: after_def)

lemma notifications_append [simp]:
  "notifications (xs @ ys) = notifications xs @ notifications ys"
  by (induction xs rule: notifications.induct) simp_all

lemma history_queries_append [simp]:
  "history_queries (xs @ ys) = history_queries xs @ history_queries ys"
  by (induction xs rule: history_queries.induct) simp_all

lemma price_queries_append [simp]:
  "price_queries (xs @ ys) = price_queries xs @ price_queries ys"
  by (induction xs rule: price_queries.induct) simp_all

lemma example_world_simps [simp]:
  "history (example_world feed answer) = example_history"
  "last_price (example_world feed answer) = feed"
  "now (example_world feed answer) t = ''2024-01-02 10:00:00''"
  "messages_create (example_world feed answer) body from_no to_no = answer"
  by (simp_all add: example_world_def)

lemma fresh_system_simps [simp]:
  "tickers fresh_system = [''SPY'', ''IWM'', ''QQQ'']"
  "prev_close_prices fresh_system = Map.empty"
  "twilio_number fresh_system = Some ''+15550100''"
  "phone_number fresh_system = Some ''+15550199''"
  by (simp_all add: fresh_system_def init_def)

lemma started_system_simps [simp]:
  "tickers started_system = [''SPY'', ''IWM'', ''QQQ'']"
  "prev_close_prices started_system ''SPY'' = Some 100"
  "prev_close_prices started_system ''IWM'' = None"
  "prev_close_prices started_system ''QQQ'' = Some 199"
  "twilio_number started_system = Some ''+15550100''"
  "phone_number started_system = Some ''+15550199''"
  by (simp_all add: started_system_def)

lemma tracked_system_simps [simp]:
  "tickers tracked_system = [''SPY'', ''IWM'', ''QQQ'']"
  "prev_close_prices tracked_system ''SPY'' = Some 100"
  "prev_close_prices tracked_system ''IWM'' = Some 50"
  "prev_close_prices tracked_system ''QQQ'' = Some 199"
  "twilio_number tracked_system = Some ''+15550100''"
  "phone_number tracked_system = Some ''+15550199''"
  by (simp_all add: tracked_system_def)

subsection \<open>Float64 rounding\<close>

lemma pow2_pos [simp]: "pow2 e > 0"
  by (simp add: pow2_def)

lemma pow2_eq_powi: "pow2 e = 2 powi e"
  by (simp add: pow2_def power_int_def field_simps)

lemma pow2_add: "pow2 (a + b) = pow2 a * pow2 b"
  by (simp add: pow2_eq_powi power_int_add)

lemma pow2_Suc: "pow2 (e + 1) = 2 * pow2 e"
  by (simp add: pow2_add) (simp add: pow2_def)

lemma ilog2_bounds:
  assumes "a > 0"
  shows "pow2 (ilog2 a) \<le> a \<and> a < pow2 (ilog2 a + 1)"
proof (cases "a \<ge> 1")
  case True
  let ?n = "\<lfloor>a\<rfloor>"
  from True have n: "?n > 0" by linarith
  from bitlen_bounds [OF n] have lo: "2 ^ nat (bitlen ?n - 1) \<le> ?n" and hi: "?n < 2 ^ nat (bitlen ?n)"
    by auto
  from n have b1: "bitlen ?n \<ge> 1" by (auto simp: bitlen_alt_def)
  have "(of_int (2 ^ nat (bitlen ?n - 1)) :: rat) \<le> of_int ?n"
    using lo by (simp only: of_int_le_iff)
  also have "\<dots> \<le> a" by simp
  finally have l: "pow2 (bitlen ?n - 1) \<le> a"
    using b1 by (simp add: pow2_def)
  have "?n + 1 \<le> 2 ^ nat (bitlen ?n)" using hi by simp
  then have "(of_int (?n + 1) :: rat) \<le> of_int (2 ^ nat (bitlen ?n))"
    by (simp only: of_int_le_iff)
  moreover have "a < of_int (?n + 1)" by linarith
  ultimately have h: "a < pow2 (bitlen ?n)"
    using b1 by (simp add: pow2_def)
  from l h True show ?thesis by (simp add: ilog2_def)
next
  case False
  let ?n = "\<lfloor>1 / a\<rfloor>"
  let ?k = "bitlen ?n"
  from False assms have "1 / a > 1" by simp
  then have n: "?n > 0" by linarith
  from bitlen_bounds [OF n] have lo: "2 ^ nat (?k - 1) \<le> ?n" and hi: "?n < 2 ^ nat ?k"
    by auto
  from n have b1: "?k \<ge> 1" by (auto simp: bitlen_alt_def)
  have "(of_int (2 ^ nat (?k - 1)) :: rat) \<le> of_int ?n"
    using lo by (simp only: of_int_le_iff)
  also have "\<dots> \<le> 1 / a" by simp
  finally have l: "(2::rat) ^ nat (?k - 1) \<le> 1 / a" by simp
  have "?n + 1 \<le> 2 ^ nat ?k" using hi by simp
  then have "(of_int (?n + 1) :: rat) \<le> of_int (2 ^ nat ?k)"
    by (simp only: of_int_le_iff)
  moreover have "1 / a < of_int (?n + 1)" by linarith
  ultimately have h: "1 / a < (2::rat) ^ nat ?k" by simp
  from l assms have l': "a * 2 ^ nat (?k - 1) \<le> 1"
    by (simp add: field_simps)
  from h assms have h': "1 < a * 2 ^ nat ?k"
    by (simp add: field_simps)
  have p1: "pow2 (?k - 1) = 2 ^ nat (?k - 1)" using b1 by (simp add: pow2_def)
  have p2: "pow2 (- ?k) = 1 / 2 ^ nat ?k" using b1 by (simp add: pow2_def)
  have p3: "pow2 (1 - ?k) = 1 / 2 ^ nat (?k - 1)" using b1 by (auto simp add: pow2_def)
  have p4: "(2::rat) ^ nat ?k = 2 * 2 ^ nat (?k - 1)"
    using b1 by (metis Suc_nat_eq_nat_zadd1 diff_add_cancel diff_ge_0_iff_ge power_Suc add.commute)
  show ?thesis
  proof (cases "a * pow2 (?k - 1) = 1")
    case True
    then have il: "ilog2 a = 1 - ?k" using False by (simp add: ilog2_def Let_def)
    from True p1 have a: "a = 1 / 2 ^ nat (?k - 1)" by (simp add: field_simps)
    have "pow2 (1 - ?k + 1) = 2 * pow2 (1 - ?k)" by (rule pow2_Suc)
    with a p3 assms show ?thesis by (simp add: il)
  next
    case neq: False
    then have il: "ilog2 a = - ?k" using False by (simp add: ilog2_def Let_def)
    from neq p1 l' have lt: "a * 2 ^ nat (?k - 1) < 1" by simp
    have "pow2 (- ?k + 1) = pow2 (1 - ?k)" by (simp add: algebra_simps)
    with p3 have up: "pow2 (- ?k + 1) = 1 / 2 ^ nat (?k - 1)" by simp
    from h' have "1 / 2 ^ nat ?k < a" by (simp add: field_simps)
    moreover from lt have "a < 1 / 2 ^ nat (?k - 1)" by (simp add: field_simps)
    ultimately show ?thesis using p2 up by (simp add: il)
  qed
qed

lemma round_half_even_error: "\<bar>of_int (round_half_even m) - m\<bar> \<le> 1 / 2"
proof -
  define r where "r = m - of_int \<lfloor>m\<rfloor>"
  have r0: "0 \<le> r" and r1: "r < 1"
    unfolding r_def by linarith+
  have m: "m = of_int \<lfloor>m\<rfloor> + r"
    by (simp add: r_def)
  consider "r < 1 / 2" | "r > 1 / 2" | "r = 1 / 2" by linarith
  then show ?thesis
  proof cases
    case 1
    then have "round_half_even m = \<lfloor>m\<rfloor>"
      by (simp add: round_half_even_def Let_def r_def)
    with 1 r0 show ?thesis by (simp add: r_def)
  next
    case 2
    then have "round_half_even m = \<lfloor>m\<rfloor> + 1"
      by (simp add: round_half_even_def Let_def r_def)
    with 2 r1 show ?thesis by (simp add: r_def)
  next
    case 3
    then have "round_half_even m = \<lfloor>m\<rfloor> \<or> round_half_even m = \<lfloor>m\<rfloor> + 1"
      by (simp add: round_half_even_def Let_def r_def)
    with 3 show ?thesis by (auto simp add: r_def)
  qed
qed

lemma round_half_even_lower: "of_int i \<le> m \<Longrightarrow> i \<le> round_half_even m"
proof -
  assume "of_int i \<le> m"
  then have "i \<le> \<lfloor>m\<rfloor>" by (simp add: le_floor_iff)
  moreover have "\<lfloor>m\<rfloor> \<le> round_half_even m"
    by (simp add: round_half_even_def Let_def)
  ultimately show ?thesis by simp
qed

lemma round_half_even_upper: "m \<le> of_int i \<Longrightarrow> round_half_even m \<le> i"
proof -
  assume a: "m \<le> of_int i"
  then have f: "\<lfloor>m\<rfloor> \<le> i" by (metis floor_mono floor_of_int)
  show ?thesis
  proof (cases "\<lfloor>m\<rfloor> = i")
    case True
    with a have "m - of_int \<lfloor>m\<rfloor> \<le> 0" by simp
    then show ?thesis using True by (simp add: round_half_even_def Let_def)
  next
    case False
    with f have "\<lfloor>m\<rfloor> + 1 \<le> i" by simp
    then show ?thesis by (simp add: round_half_even_def Let_def)
  qed
qed

text \<open>
  \<open>float64 x\<close> has at most 53 significant bits and lies at most half a unit in the last
  place from \<open>x\<close>.
\<close>

lemma float64_error:
  assumes "float64 x = Some y"
  shows "\<bar>y - x\<bar> \<le> pow2 (ilog2 \<bar>x\<bar> - 53)"
    and "\<bar>y - x\<bar> \<le> \<bar>x\<bar> / 2 ^ 53"
    and "\<exists>n. y = of_int n * pow2 (ilog2 \<bar>x\<bar> - 52) \<and> \<bar>n\<bar> \<le> 2 ^ 53"
proof -
  show "\<bar>y - x\<bar> \<le> pow2 (ilog2 \<bar>x\<bar> - 53)"
    and "\<bar>y - x\<bar> \<le> \<bar>x\<bar> / 2 ^ 53"
    and "\<exists>n. y = of_int n * pow2 (ilog2 \<bar>x\<bar> - 52) \<and> \<bar>n\<bar> \<le> 2 ^ 53"
  proof (atomize (full), cases "x = 0")
    case True
    with assms have "y = 0" by (simp add: float64_def)
    with True show "\<bar>y - x\<bar> \<le> pow2 (ilog2 \<bar>x\<bar> - 53) \<and> \<bar>y - x\<bar> \<le> \<bar>x\<bar> / 2 ^ 53
        \<and> (\<exists>n. y = of_int n * pow2 (ilog2 \<bar>x\<bar> - 52) \<and> \<bar>n\<bar> \<le> 2 ^ 53)"
      by (auto intro: less_imp_le exI [of _ 0])
  next
    case False
    define k where "k = ilog2 \<bar>x\<bar>"
    define u where "u = pow2 (k - 52)"
    define m where "m = \<bar>x\<bar> / u"
    define n where "n = round_half_even m"
    have u: "u > 0" by (simp add: u_def)
    from False assms have y: "y = sgn x * of_int n * u"
      by (auto simp add: float64_def Let_def k_def u_def m_def n_def split: if_splits)
    from False ilog2_bounds [of "\<bar>x\<bar>"] have lo: "pow2 k \<le> \<bar>x\<bar>" and hi: "\<bar>x\<bar> < pow2 (k + 1)"
      by (simp_all add: k_def)
    have pk: "pow2 k = 2 ^ 52 * u"
      using pow2_add [of 52 "k - 52"] by (simp add: u_def pow2_def)
    have pk1: "pow2 (k + 1) = 2 ^ 53 * u"
      using pow2_Suc [of k] pk by simp
    have half: "pow2 (k - 53) = u / 2"
      using pow2_Suc [of "k - 53"] by (simp add: u_def)
    from lo pk u have mlo: "2 ^ 52 \<le> m" by (simp add: m_def field_simps)
    from hi pk1 u have mhi: "m < 2 ^ 53" by (simp add: m_def field_simps)
    have xm: "\<bar>x\<bar> = m * u" using u by (simp add: m_def)
    have "\<bar>y - x\<bar> = \<bar>of_int n - m\<bar> * u"
    proof -
      have "x = sgn x * \<bar>x\<bar>" by (simp add: sgn_mult_abs)
      then have "y - x = sgn x * of_int n * u - sgn x * \<bar>x\<bar>" by (simp add: y)
      then have "y - x = sgn x * (of_int n * u - \<bar>x\<bar>)" by (simp add: algebra_simps)
      also have "\<dots> = sgn x * ((of_int n - m) * u)" by (simp add: xm algebra_simps)
      finally have "\<bar>y - x\<bar> = \<bar>sgn x\<bar> * \<bar>(of_int n - m) * u\<bar>" by (simp add: abs_mult)
      with False u show ?thesis by (simp add: abs_mult abs_sgn_eq)
    qed
    moreover have "\<bar>of_int n - m\<bar> \<le> 1 / 2" unfolding n_def by (rule round_half_even_error)
    ultimately have e1: "\<bar>y - x\<bar> \<le> u / 2"
      using u by (simp add: mult_right_mono)
    have "u / 2 = (2 ^ 52 * u) / 2 ^ 53" by simp
    also have "\<dots> \<le> \<bar>x\<bar> / 2 ^ 53" using lo pk by (simp add: divide_right_mono)
    finally have e2: "u / 2 \<le> \<bar>x\<bar> / 2 ^ 53" .
    have n0: "0 \<le> n"
      using round_half_even_lower [of 0 m] mlo by (simp add: n_def)
    have n1: "n \<le> 2 ^ 53"
      using round_half_even_upper [of m "2 ^ 53"] mhi by (simp add: n_def)
    have "y = of_int (if x > 0 then n else - n) * u"
      using False by (simp add: y sgn_if)
    moreover have "\<bar>if x > 0 then n else - n\<bar> \<le> 2 ^ 53" using n0 n1 by simp
    ultimately have e3: "\<exists>n. y = of_int n * u \<and> \<bar>n\<bar> \<le> 2 ^ 53" by blast
    from e1 e2 e3 half show "\<bar>y - x\<bar> \<le> pow2 (ilog2 \<bar>x\<bar> - 53) \<and> \<bar>y - x\<bar> \<le> \<bar>x\<bar> / 2 ^ 53
        \<and> (\<exists>n. y = of_int n * pow2 (ilog2 \<bar>x\<bar> - 52) \<and> \<bar>n\<bar> \<le> 2 ^ 53)"
      by (simp add: k_def u_def)
  qed
qed

subsection \<open>Float64 values\<close>

text \<open>The float64 numbers that the literals of the scenarios denote.\<close>

lemma float64_literals:
  "float64 100.0 = Some 100"
  "float64 101.5 = Some (203 / 2)"
  "float64 99.2 = Some (6980579422424269 / 70368744177664)"
  "float64 98.9 = Some (3479734399585485 / 35184372088832)"
  "float64 (- 0.8) = Some (- (3602879701896397 / 4503599627370496))"
  "float64 (- 1.1) = Some (- (2476979795053773 / 2251799813685248))"
  by code_simp+

text \<open>Line 68 at these prices, with the previous close 100.\<close>

lemma pct_change_float64_values:
  "pct_change_float64 (203 / 2) 100 = Some (3 / 2)"
  "pct_change_float64 (6980579422424269 / 70368744177664) 100 =
     Some (- (7205759403792769 / 9007199254740992))"
  "pct_change_float64 (3479734399585485 / 35184372088832) 100 =
     Some (- (38702809297715 / 35184372088832))"
  by code_simp+

subsection \<open>The baseline loop\<close>

lemma raised_get_prev_close_loop [simp]: "raised (get_prev_close_loop w ts s) = None"
  by (induction ts arbitrary: s) (simp_all add: Let_def)

text \<open>The object after the loop: only the table changes, and only at stored tickers.\<close>

lemma state_get_prev_close_loop:
  "state (get_prev_close_loop w ts s) =
     s\<lparr>prev_close_prices :=
         (\<lambda>t. if t \<in> set ts \<and> history w t \<noteq> [] then Some (prev_close_of (history w t))
              else prev_close_prices s t)\<rparr>"
proof (induction ts arbitrary: s)
  case Nil
  show ?case by simp
next
  case (Cons a ts)
  show ?case
    by (cases "history w a = []") (auto simp add: Let_def Cons.IH fun_eq_iff)
qed

lemma skip_logged:
  "t \<in> set ts \<Longrightarrow> history w t = [] \<Longrightarrow>
     Print (no_history_msg t) \<in> set (events (get_prev_close_loop w ts s))"
  by (induction ts arbitrary: s) (auto simp add: Let_def)

lemma history_queries_get_prev_close_loop [simp]:
  "history_queries (events (get_prev_close_loop w ts s)) = ts"
  by (induction ts arbitrary: s) (simp_all add: Let_def)

lemma price_queries_get_prev_close_loop [simp]:
  "price_queries (events (get_prev_close_loop w ts s)) = []"
  by (induction ts arbitrary: s) (simp_all add: Let_def)

subsection \<open>The tick\<close>

lemma state_send_sms [simp]: "state (send_sms w s m) = s"
  by (simp add: send_sms_def split: option.split)

lemma state_check_one [simp]: "state (check_one w s t) = s"
  by (simp add: check_one_def Let_def split: fetch.split option.split)

lemma check_one_Price:
  "last_price w t = Price C \<Longrightarrow> prev_close_prices s t = Some B \<Longrightarrow> B \<noteq> 0 \<Longrightarrow>
     check_one w s t =
       (if \<bar>pct_change C B\<bar> \<ge> 1 then
          after [FastInfo t] (send_sms w s (alert_msg t (direction (pct_change C B)) (now w t)))
        else returns s [FastInfo t])"
  by (simp add: check_one_def Let_def)

lemma price_queries_check_one [simp]: "price_queries (events (check_one w s t)) = [t]"
  by (simp add: check_one_def send_sms_def Let_def split: fetch.split option.split)

lemma state_check_loop [simp]: "state (check_loop w ts s) = s"
  by (induction ts) (simp_all add: Let_def split: option.split)

lemma check_one_NoKey:
  "last_price w t = NoKey \<Longrightarrow> check_one w s t = returns s [FastInfo t, Print (no_price_msg t)]"
  by (simp add: check_one_def)

lemma check_one_Fails:
  "last_price w t = Fails e \<Longrightarrow> check_one w s t = raises s [FastInfo t] (MarketDataError e)"
  by (simp add: check_one_def)

text \<open>A tick over two stretches of tickers: the second runs only if the first did not raise.\<close>

lemma check_loop_append:
  "check_loop w (xs @ ys) s =
     (case raised (check_loop w xs s) of
        Some e \<Rightarrow> check_loop w xs s
      | None \<Rightarrow> after (events (check_loop w xs s)) (check_loop w ys s))"
  by (induction xs) (simp_all add: Let_def split: option.split)

lemma check_price_split:
  "tickers s = pre @ t # post \<Longrightarrow> raised (check_loop w pre s) = None \<Longrightarrow>
     check_price w s =
       after (events (check_loop w pre s))
         (case raised (check_one w s t) of
            Some e \<Rightarrow> check_one w s t
          | None \<Rightarrow> after (events (check_one w s t)) (check_loop w post s))"
  by (simp add: check_price_def check_loop_append Let_def split: option.split)

lemma price_queries_reached:
  "tickers s = pre @ t # post \<Longrightarrow> raised (check_loop w pre s) = None \<Longrightarrow>
     t \<in> set (price_queries (events (check_price w s)))"
  by (simp add: check_price_def check_loop_append Let_def split: option.split)

lemma history_queries_check_one [simp]: "history_queries (events (check_one w s t)) = []"
  by (simp add: check_one_def send_sms_def Let_def split: fetch.split option.split)

lemma history_queries_check_loop [simp]: "history_queries (events (check_loop w ts s)) = []"
  by (induction ts) (simp_all add: Let_def split: option.split)

subsection \<open>The monitoring loop\<close>

lemma state_monitor_loop [simp]: "state (monitor_loop due ws i n s) = s"
  by (induction n arbitrary: i) (simp_all add: Let_def check_price_def split: option.split)

lemma history_queries_monitor_loop [simp]:
  "history_queries (events (monitor_loop due ws i n s)) = []"
  by (induction n arbitrary: i s) (simp_all add: Let_def check_price_def split: option.split)

section \<open>The claims\<close>

subsection \<open>The alert decision\<close>

text \<open>
  C1: for a symbol \<open>t\<close> with previous close \<open>B > 0\<close> whose current price \<open>C\<close> is fetched on a
  tick (the tick reaches \<open>t\<close>: no earlier symbol of the tick raised), the step of the tick
  for \<open>t\<close> hands exactly one text message to the transport if and only if
  \<open>\<bar>(C - B) / B * 100\<bar> \<ge> 1\<close>; that message carries the label \<^verbatim>\<open>rise\<close> when the
  percentage change is positive and \<^verbatim>\<open>drop\<close> otherwise; and these are the effects of the
  tick for \<open>t\<close>, placed between those of the symbols before and after it.
\<close>

theorem check_price_alert_iff:
  assumes "tickers s = pre @ t # post"
    and "raised (check_loop w pre s) = None"
    and "prev_close_prices s t = Some B" and "B > 0"
    and "last_price w t = Price C"
  shows "(length (notifications (events (check_one w s t))) = 1) = (\<bar>(C - B) / B * 100\<bar> \<ge> 1)
    \<and> events (check_one w s t) =
        (if \<bar>(C - B) / B * 100\<bar> \<ge> 1
         then [FastInfo t,
               Sms (t @ '': '' @ (if (C - B) / B * 100 > 0 then ''rise'' else ''drop'')
                      @ '' >= 1%, Timestamp: '' @ now w t)
                   (twilio_number s) (phone_number s)]
         else [FastInfo t])
    \<and> events (check_price w s) =
        events (check_loop w pre s) @ events (check_one w s t) @
        (if raised (check_one w s t) = None then events (check_loop w post s) else [])"
proof -
  have one: "events (check_one w s t) =
        (if \<bar>(C - B) / B * 100\<bar> \<ge> 1
         then [FastInfo t,
               Sms (t @ '': '' @ (if (C - B) / B * 100 > 0 then ''rise'' else ''drop'')
                      @ '' >= 1%, Timestamp: '' @ now w t)
                   (twilio_number s) (phone_number s)]
         else [FastInfo t])"
    using check_one_Price [OF assms(5) assms(3)] assms(4)
    by (simp add: pct_change_def direction_def alert_msg_def send_sms_def
        split: option.split)
  have cnt: "(length (notifications (events (check_one w s t))) = 1) = (\<bar>(C - B) / B * 100\<bar> \<ge> 1)"
    by (simp add: one)
  have whole: "events (check_price w s) =
        events (check_loop w pre s) @ events (check_one w s t) @
        (if raised (check_one w s t) = None then events (check_loop w post s) else [])"
    using assms(1,2)
    by (simp add: check_price_split split: option.split)
  from cnt one whole show ?thesis by blast
qed

text \<open>
  At \<^verbatim>\<open>QQQ\<close>, previous close 199 and price 197, the change is about \<open>-1.005\<close> percent:
  one message, labelled \<^verbatim>\<open>drop\<close>, after the message for \<^verbatim>\<open>SPY\<close> and the skip of
  \<^verbatim>\<open>IWM\<close>.
\<close>

theorem check_price_alert_iff_witness:
  "tickers started_system = [''SPY'', ''IWM''] @ ''QQQ'' # []
   \<and> raised (check_loop (example_world feed_open None) [''SPY'', ''IWM''] started_system) = None
   \<and> prev_close_prices started_system ''QQQ'' = Some 199 \<and> (199::rat) > 0
   \<and> last_price (example_world feed_open None) ''QQQ'' = Price 197
   \<and> length (notifications (events (check_one (example_world feed_open None)
        started_system ''QQQ''))) = 1
   \<and> events (check_one (example_world feed_open None) started_system ''QQQ'') =
       [FastInfo ''QQQ'',
        Sms ''QQQ: drop >= 1%, Timestamp: 2024-01-02 10:00:00''
          (Some ''+15550100'') (Some ''+15550199'')]
   \<and> notifications (events (check_price (example_world feed_open None) started_system)) =
       [''SPY: rise >= 1%, Timestamp: 2024-01-02 10:00:00'',
        ''QQQ: drop >= 1%, Timestamp: 2024-01-02 10:00:00'']"
proof -
  let ?w = "example_world feed_open None"
  have h1: "tickers started_system = [''SPY'', ''IWM''] @ ''QQQ'' # []" by simp
  have h2: "raised (check_loop ?w [''SPY'', ''IWM''] started_system) = None"
    by (simp add: check_one_def feed_open_def pct_change_def send_sms_def Let_def returns_def)
  have h3: "prev_close_prices started_system ''QQQ'' = Some 199" by simp
  have h4: "(199::rat) > 0" by simp
  have h5: "last_price ?w ''QQQ'' = Price 197" by (simp add: feed_open_def)
  have pre: "events (check_loop ?w [''SPY'', ''IWM''] started_system) =
      [FastInfo ''SPY'',
       Sms ''SPY: rise >= 1%, Timestamp: 2024-01-02 10:00:00''
         (Some ''+15550100'') (Some ''+15550199''),
       FastInfo ''IWM'', Print ''Unable to fetch the current price for IWM.'']"
    by (simp add: check_one_def feed_open_def pct_change_def direction_def alert_msg_def
        no_price_msg_def send_sms_def Let_def)
  from check_price_alert_iff [OF h1 h2 h3 h4 h5] h1 h2 h3 h4 h5 pre show ?thesis
    by simp
qed

subsection \<open>The frame of a tick\<close>

text \<open>
  C6: whatever the market data and the transport answer, \<^verbatim>\<open>check_price\<close> leaves the
  table of previous closes and the list of tickers as they were (the whole object, in
  fact), and so does any number of rounds of the monitoring loop.
\<close>

theorem check_price_frame:
  "tickers (state (check_price w s)) = tickers s
   \<and> prev_close_prices (state (check_price w s)) = prev_close_prices s
   \<and> state (check_price w s) = s
   \<and> state (monitor_loop due ws i n s) = s"
  by (simp add: check_price_def)

subsection \<open>Loading the baselines\<close>

text \<open>
  C3: for every tracked symbol \<open>t\<close>, \<^verbatim>\<open>get_prev_close_prices\<close> sets the baseline thus:
  with two closes or more in the queried history it is the earliest close; with exactly
  one close it is that close; with an empty history nothing is stored for \<open>t\<close> (its entry
  is what it was before the call, so a symbol without an entry, as every symbol is at
  startup, stays out of the table) and the skip is printed.
\<close>

theorem get_prev_close_prices_baseline:
  assumes "t \<in> set (tickers s)"
  shows "(\<forall>c0 c1 cs. history w t = c0 # c1 # cs \<longrightarrow>
            prev_close_prices (state (get_prev_close_prices w s)) t = Some c0)
    \<and> (\<forall>c. history w t = [c] \<longrightarrow>
            prev_close_prices (state (get_prev_close_prices w s)) t = Some c)
    \<and> (history w t = [] \<longrightarrow>
            prev_close_prices (state (get_prev_close_prices w s)) t = prev_close_prices s t
          \<and> (prev_close_prices s t = None \<longrightarrow>
                t \<notin> dom (prev_close_prices (state (get_prev_close_prices w s))))
          \<and> Print (''No historical data available for '' @ t @ ''. Skipping...'')
                \<in> set (events (get_prev_close_prices w s)))"
  using assms skip_logged [of t "tickers s" w s]
  by (auto simp add: get_prev_close_prices_def state_get_prev_close_loop prev_close_of_def
      no_history_msg_def)

text \<open>
  From the empty table: \<^verbatim>\<open>QQQ\<close> (closes 199, 200) gets 199, \<^verbatim>\<open>SPY\<close> (close 100) gets
  100, \<^verbatim>\<open>IWM\<close> (no history) gets no entry and its skip is printed.
\<close>

theorem get_prev_close_prices_baseline_witness:
  "''QQQ'' \<in> set (tickers fresh_system)
   \<and> history (example_world feed_open None) ''QQQ'' = 199 # 200 # []
   \<and> prev_close_prices (state (get_prev_close_prices (example_world feed_open None)
        fresh_system)) ''QQQ'' = Some 199
   \<and> ''SPY'' \<in> set (tickers fresh_system)
   \<and> history (example_world feed_open None) ''SPY'' = [100]
   \<and> prev_close_prices (state (get_prev_close_prices (example_world feed_open None)
        fresh_system)) ''SPY'' = Some 100
   \<and> ''IWM'' \<in> set (tickers fresh_system)
   \<and> history (example_world feed_open None) ''IWM'' = []
   \<and> prev_close_prices fresh_system ''IWM'' = None
   \<and> ''IWM'' \<notin> dom (prev_close_prices (state (get_prev_close_prices
        (example_world feed_open None) fresh_system)))
   \<and> Print ''No historical data available for IWM. Skipping...''
        \<in> set (events (get_prev_close_prices (example_world feed_open None) fresh_system))"
proof -
  let ?w = "example_world feed_open None"
  have q: "''QQQ'' \<in> set (tickers fresh_system)" by simp
  have s: "''SPY'' \<in> set (tickers fresh_system)" by simp
  have i: "''IWM'' \<in> set (tickers fresh_system)" by simp
  have hq: "history ?w ''QQQ'' = 199 # 200 # []" by (simp add: example_history_def)
  have hs: "history ?w ''SPY'' = [100]" by (simp add: example_history_def)
  have hi: "history ?w ''IWM'' = []" by (simp add: example_history_def)
  have ni: "prev_close_prices fresh_system ''IWM'' = None" by simp
  from get_prev_close_prices_baseline [OF q, of ?w] hq
  have rq: "prev_close_prices (state (get_prev_close_prices ?w fresh_system)) ''QQQ'' = Some 199"
    by blast
  from get_prev_close_prices_baseline [OF s, of ?w] hs
  have rs: "prev_close_prices (state (get_prev_close_prices ?w fresh_system)) ''SPY'' = Some 100"
    by blast
  from get_prev_close_prices_baseline [OF i, of ?w] hi ni
  have ri: "''IWM'' \<notin> dom (prev_close_prices (state (get_prev_close_prices ?w fresh_system)))
      \<and> Print ''No historical data available for IWM. Skipping...''
          \<in> set (events (get_prev_close_prices ?w fresh_system))"
    by simp
  from q s i hq hs hi ni rq rs ri show ?thesis by blast
qed

text \<open>
  C10: \<^verbatim>\<open>get_prev_close_prices\<close> never removes an entry of the table; the symbols of the
  resulting table are those of the table before together with the tracked tickers whose
  history is not empty; and a second run against the same market data leaves the table of
  the first run as it is.
\<close>

theorem get_prev_close_prices_monotone_idempotent:
  "dom (prev_close_prices s) \<subseteq> dom (prev_close_prices (state (get_prev_close_prices w s)))
   \<and> dom (prev_close_prices (state (get_prev_close_prices w s))) =
       dom (prev_close_prices s) \<union> {t \<in> set (tickers s). history w t \<noteq> []}
   \<and> prev_close_prices (state (get_prev_close_prices w (state (get_prev_close_prices w s)))) =
       prev_close_prices (state (get_prev_close_prices w s))"
  by (auto simp add: get_prev_close_prices_def state_get_prev_close_loop fun_eq_iff dom_def)

subsection \<open>Start-up order\<close>

text \<open>
  C8: in every run of \<^verbatim>\<open>start_monitoring\<close>, observed for any number of rounds, the
  history of each tracked ticker is queried once, in one pass: all effects of
  \<^verbatim>\<open>get_prev_close_prices\<close> come first and hold no price lookup, the rounds of the loop
  follow and hold no history query, and every tick works on the object that the
  initialisation left.
\<close>

theorem start_monitoring_initialises_once:
  "history_queries (events (start_monitoring w0 due ws n s)) = tickers s
   \<and> events (start_monitoring w0 due ws n s) =
       events (get_prev_close_prices w0 s) @
       events (monitor_loop due ws 0 n (state (get_prev_close_prices w0 s)))
   \<and> price_queries (events (get_prev_close_prices w0 s)) = []
   \<and> history_queries (events (monitor_loop due ws 0 n (state (get_prev_close_prices w0 s)))) = []
   \<and> state (start_monitoring w0 due ws n s) = state (get_prev_close_prices w0 s)"
  by (simp add: start_monitoring_def get_prev_close_prices_def Let_def)

subsection \<open>A price that cannot be fetched\<close>

text \<open>
  C4, as the code has it: for every tick and every symbol \<open>x\<close> that the tick reaches and
  whose current-price lookup raises \<^verbatim>\<open>KeyError\<close>, \<^verbatim>\<open>check_price\<close> prints the warning,
  hands no message for \<open>x\<close> to the transport and goes on with the symbols after \<open>x\<close>, whose
  evaluation is what it is without \<open>x\<close>. The object is unchanged, so \<open>x\<close> remains eligible
  on the next tick: it is still tracked, the next tick runs as it would have run without
  this one, and a next tick that reaches \<open>x\<close> looks its price up.
\<close>

theorem check_price_skips_unavailable:
  assumes "tickers s = pre @ x # post"
    and "raised (check_loop w pre s) = None"
    and "last_price w x = NoKey"
  shows "events (check_price w s) =
           events (check_loop w pre s)
           @ [FastInfo x, Print (''Unable to fetch the current price for '' @ x @ ''.'')]
           @ events (check_loop w post s)
    \<and> notifications (events (check_one w s x)) = []
    \<and> raised (check_one w s x) = None
    \<and> raised (check_price w s) = raised (check_loop w post s)
    \<and> state (check_price w s) = s
    \<and> x \<in> set (tickers (state (check_price w s)))
    \<and> (\<forall>w'. check_price w' (state (check_price w s)) = check_price w' s)
    \<and> (\<forall>w'. raised (check_loop w' pre (state (check_price w s))) = None \<longrightarrow>
          x \<in> set (price_queries (events (check_price w' (state (check_price w s))))))"
proof -
  have st: "state (check_price w s) = s"
    by (simp add: check_price_def)
  have next_tick: "\<forall>w'. raised (check_loop w' pre (state (check_price w s))) = None \<longrightarrow>
          x \<in> set (price_queries (events (check_price w' (state (check_price w s)))))"
    using price_queries_reached [OF assms(1)] by (simp add: st)
  have tracked: "x \<in> set (tickers (state (check_price w s)))"
    using assms(1) by (simp add: st)
  from assms st tracked next_tick show ?thesis
    by (simp add: check_price_split check_one_NoKey no_price_msg_def)
qed

text \<open>
  \<^verbatim>\<open>IWM\<close> has no price on this tick: the warning is printed and \<^verbatim>\<open>QQQ\<close> is evaluated
  after it. On the next tick every ticker trades at 105, and \<^verbatim>\<open>IWM\<close>, with the
  previous close 50, is looked up and alerts.
\<close>

theorem check_price_skips_unavailable_witness:
  "tickers tracked_system = [''SPY''] @ ''IWM'' # [''QQQ'']
   \<and> raised (check_loop (example_world feed_open None) [''SPY''] tracked_system) = None
   \<and> last_price (example_world feed_open None) ''IWM'' = NoKey
   \<and> events (check_price (example_world feed_open None) tracked_system) =
       [FastInfo ''SPY'',
        Sms ''SPY: rise >= 1%, Timestamp: 2024-01-02 10:00:00''
          (Some ''+15550100'') (Some ''+15550199''),
        FastInfo ''IWM'', Print ''Unable to fetch the current price for IWM.'',
        FastInfo ''QQQ'',
        Sms ''QQQ: drop >= 1%, Timestamp: 2024-01-02 10:00:00''
          (Some ''+15550100'') (Some ''+15550199'')]
   \<and> raised (check_price (example_world feed_open None) tracked_system) = None
   \<and> state (check_price (example_world feed_open None) tracked_system) = tracked_system
   \<and> raised (check_loop (example_world (feed_flat 105) None) [''SPY'']
        (state (check_price (example_world feed_open None) tracked_system))) = None
   \<and> ''IWM'' \<in> set (price_queries (events (check_price (example_world (feed_flat 105) None)
        (state (check_price (example_world feed_open None) tracked_system)))))
   \<and> notifications (events (check_price (example_world (feed_flat 105) None)
        (state (check_price (example_world feed_open None) tracked_system)))) =
       [''SPY: rise >= 1%, Timestamp: 2024-01-02 10:00:00'',
        ''IWM: rise >= 1%, Timestamp: 2024-01-02 10:00:00'',
        ''QQQ: drop >= 1%, Timestamp: 2024-01-02 10:00:00'']"
proof -
  let ?w = "example_world feed_open None"
  let ?n = "example_world (feed_flat 105) None"
  have h1: "tickers tracked_system = [''SPY''] @ ''IWM'' # [''QQQ'']" by simp
  have pre: "check_loop ?w [''SPY''] tracked_system =
      returns tracked_system
        [FastInfo ''SPY'',
         Sms ''SPY: rise >= 1%, Timestamp: 2024-01-02 10:00:00''
           (Some ''+15550100'') (Some ''+15550199'')]"
    by (simp add: check_one_def feed_open_def pct_change_def direction_def alert_msg_def
        send_sms_def Let_def returns_def after_def)
  have post: "check_loop ?w [''QQQ''] tracked_system =
      returns tracked_system
        [FastInfo ''QQQ'',
         Sms ''QQQ: drop >= 1%, Timestamp: 2024-01-02 10:00:00''
           (Some ''+15550100'') (Some ''+15550199'')]"
    by (simp add: check_one_def feed_open_def pct_change_def direction_def alert_msg_def
        send_sms_def Let_def returns_def after_def)
  have h2: "raised (check_loop ?w [''SPY''] tracked_system) = None"
    by (simp only: pre raised_returns)
  have h3: "last_price ?w ''IWM'' = NoKey" by (simp add: feed_open_def)
  note main = check_price_skips_unavailable [OF h1 h2 h3]
  from main have st: "state (check_price ?w tracked_system) = tracked_system"
    by blast
  have h4: "raised (check_loop ?n [''SPY''] (state (check_price ?w tracked_system))) = None"
    by (simp add: st check_one_def feed_flat_def pct_change_def send_sms_def Let_def)
  from main h4 have again: "''IWM'' \<in> set (price_queries (events (check_price ?n
      (state (check_price ?w tracked_system)))))"
    by blast
  have next_tick: "notifications (events (check_price ?n tracked_system)) =
       [''SPY: rise >= 1%, Timestamp: 2024-01-02 10:00:00'',
        ''IWM: rise >= 1%, Timestamp: 2024-01-02 10:00:00'',
        ''QQQ: drop >= 1%, Timestamp: 2024-01-02 10:00:00'']"
    by (simp add: check_price_def check_one_def feed_flat_def pct_change_def direction_def
        alert_msg_def send_sms_def Let_def)
  from main h1 h2 h3 h4 again pre post next_tick st show ?thesis
    by simp
qed

text \<open>
  The claim as worded also covers a query that fails otherwise. With a
  \<^verbatim>\<open>ConnectionError\<close> at \<^verbatim>\<open>SPY\<close> no warning is printed, the exception leaves
  \<^verbatim>\<open>check_price\<close>, and neither \<^verbatim>\<open>IWM\<close> nor \<^verbatim>\<open>QQQ\<close> is evaluated in that tick.
\<close>

theorem check_price_fetch_failure_counterexample:
  "last_price (example_world feed_down None) ''SPY'' = Fails ''ConnectionError''
   \<and> tickers started_system = [''SPY'', ''IWM'', ''QQQ'']
   \<and> events (check_price (example_world feed_down None) started_system) = [FastInfo ''SPY'']
   \<and> raised (check_price (example_world feed_down None) started_system) =
       Some (MarketDataError ''ConnectionError'')
   \<and> price_queries (events (check_price (example_world feed_down None) started_system)) =
       [''SPY'']"
  by (simp add: check_price_def check_one_def feed_down_def)

text \<open>
  C9: on a tick that reaches the symbol \<open>t\<close>, a \<^verbatim>\<open>KeyError\<close> of the price lookup makes the
  step print the warning and return; any other exception \<open>e\<close> of the lookup leaves
  \<^verbatim>\<open>check_price\<close>, and the effects of the tick end with that lookup, so no later symbol
  is evaluated; and the warning is printed for \<open>t\<close> only in the \<^verbatim>\<open>KeyError\<close> case.
\<close>

theorem only_KeyError_is_skipped:
  assumes "tickers s = pre @ t # post"
    and "raised (check_loop w pre s) = None"
  shows "(last_price w t = NoKey \<longrightarrow>
            check_one w s t =
              returns s [FastInfo t, Print (''Unable to fetch the current price for '' @ t @ ''.'')])
    \<and> (\<forall>e. last_price w t = Fails e \<longrightarrow>
            raised (check_price w s) = Some (MarketDataError e)
          \<and> events (check_price w s) = events (check_loop w pre s) @ [FastInfo t])
    \<and> (Print (''Unable to fetch the current price for '' @ t @ ''.'')
          \<in> set (events (check_one w s t))) = (last_price w t = NoKey)"
  using assms
  by (auto simp add: check_price_split check_one_NoKey check_one_Fails no_price_msg_def
      check_one_def send_sms_def Let_def split: fetch.split option.split)

text \<open>
  The \<^verbatim>\<open>KeyError\<close> at \<^verbatim>\<open>IWM\<close> is skipped; the \<^verbatim>\<open>ConnectionError\<close> at \<^verbatim>\<open>SPY\<close>, the
  first ticker, ends the tick before \<^verbatim>\<open>IWM\<close> and \<^verbatim>\<open>QQQ\<close> are looked up.
\<close>

theorem only_KeyError_is_skipped_witness:
  "tickers started_system = [''SPY''] @ ''IWM'' # [''QQQ'']
   \<and> raised (check_loop (example_world feed_open None) [''SPY''] started_system) = None
   \<and> last_price (example_world feed_open None) ''IWM'' = NoKey
   \<and> check_one (example_world feed_open None) started_system ''IWM'' =
       returns started_system
         [FastInfo ''IWM'', Print ''Unable to fetch the current price for IWM.'']
   \<and> tickers started_system = [] @ ''SPY'' # [''IWM'', ''QQQ'']
   \<and> raised (check_loop (example_world feed_down None) [] started_system) = None
   \<and> last_price (example_world feed_down None) ''SPY'' = Fails ''ConnectionError''
   \<and> raised (check_price (example_world feed_down None) started_system) =
       Some (MarketDataError ''ConnectionError'')
   \<and> events (check_price (example_world feed_down None) started_system) = [FastInfo ''SPY'']"
proof -
  let ?w = "example_world feed_open None"
  let ?d = "example_world feed_down None"
  have a1: "tickers started_system = [''SPY''] @ ''IWM'' # [''QQQ'']" by simp
  have a2: "raised (check_loop ?w [''SPY''] started_system) = None"
    by (simp add: check_one_def feed_open_def pct_change_def send_sms_def Let_def)
  have a3: "last_price ?w ''IWM'' = NoKey" by (simp add: feed_open_def)
  have b1: "tickers started_system = [] @ ''SPY'' # [''IWM'', ''QQQ'']" by simp
  have b2: "raised (check_loop ?d [] started_system) = None" by simp
  have b3: "last_price ?d ''SPY'' = Fails ''ConnectionError''" by (simp add: feed_down_def)
  from only_KeyError_is_skipped [OF a1 a2] a3
  have ra: "check_one ?w started_system ''IWM'' =
      returns started_system
        [FastInfo ''IWM'', Print ''Unable to fetch the current price for IWM.'']"
    by simp
  from only_KeyError_is_skipped [OF b1 b2] b3
  have rb: "raised (check_price ?d started_system) = Some (MarketDataError ''ConnectionError'')
      \<and> events (check_price ?d started_system) = [FastInfo ''SPY'']"
    by simp
  from a1 a2 a3 b1 b2 b3 ra rb show ?thesis by blast
qed

subsection \<open>A transport that fails\<close>

text \<open>
  C5: when the tick reaches a symbol \<open>t\<close> whose change passes the threshold and the
  transport raises \<open>e\<close> on its message, the exception leaves \<^verbatim>\<open>send_sms\<close> and
  \<^verbatim>\<open>check_price\<close>: the message was handed over once, it is the last effect of the tick,
  no later symbol is evaluated, and a monitoring loop that runs this tick ends with the
  outcome of the tick, whatever rounds were still to come.
\<close>

theorem transport_failure_propagates:
  assumes "tickers s = pre @ t # post"
    and "raised (check_loop w pre s) = None"
    and "last_price w t = Price C"
    and "prev_close_prices s t = Some B"
    and "\<bar>pct_change C B\<bar> \<ge> 1"
    and "messages_create w (alert_msg t (direction (pct_change C B)) (now w t))
           (twilio_number s) (phone_number s) = Some e"
  shows "raised (send_sms w s (alert_msg t (direction (pct_change C B)) (now w t)))
           = Some (TransportError e)
    \<and> raised (check_price w s) = Some (TransportError e)
    \<and> events (check_price w s) =
        events (check_loop w pre s)
        @ [FastInfo t,
           Sms (alert_msg t (direction (pct_change C B)) (now w t))
             (twilio_number s) (phone_number s)]
    \<and> (\<forall>due ws i n. due i \<and> ws i = w \<longrightarrow>
          monitor_loop due ws i (Suc n) s = check_price w s)"
proof -
  let ?m = "alert_msg t (direction (pct_change C B)) (now w t)"
  have send: "send_sms w s ?m
      = raises s [Sms ?m (twilio_number s) (phone_number s)] (TransportError e)"
    using assms(6) by (simp add: send_sms_def)
  have nz: "B \<noteq> 0"
    using assms(5) by (auto simp add: pct_change_def)
  have one: "check_one w s t
      = after [FastInfo t] (raises s [Sms ?m (twilio_number s) (phone_number s)] (TransportError e))"
    using check_one_Price [OF assms(3) assms(4) nz] assms(5) send by simp
  have tick: "check_price w s = after (events (check_loop w pre s)) (check_one w s t)"
    using assms(1,2) by (simp add: check_price_split one)
  have r: "raised (check_price w s) = Some (TransportError e)"
    by (simp add: tick one)
  have ev: "events (check_price w s) =
        events (check_loop w pre s) @ [FastInfo t, Sms ?m (twilio_number s) (phone_number s)]"
    by (simp add: tick one)
  have run: "\<forall>due ws i n. due i \<and> ws i = w \<longrightarrow> monitor_loop due ws i (Suc n) s = check_price w s"
    using r by (simp add: Let_def)
  from send r ev run show ?thesis by simp
qed

text \<open>
  The transport is down when \<^verbatim>\<open>SPY\<close> has risen by 1.5 percent: the tick ends with that
  one message, and so does a loop of three rounds.
\<close>

theorem transport_failure_propagates_witness:
  "tickers started_system = [] @ ''SPY'' # [''IWM'', ''QQQ'']
   \<and> raised (check_loop (example_world feed_open (Some ''TwilioRestException'')) []
        started_system) = None
   \<and> last_price (example_world feed_open (Some ''TwilioRestException'')) ''SPY'' = Price 101.5
   \<and> prev_close_prices started_system ''SPY'' = Some 100
   \<and> \<bar>pct_change 101.5 100\<bar> \<ge> 1
   \<and> raised (check_price (example_world feed_open (Some ''TwilioRestException''))
        started_system) = Some (TransportError ''TwilioRestException'')
   \<and> events (check_price (example_world feed_open (Some ''TwilioRestException''))
        started_system) =
       [FastInfo ''SPY'',
        Sms ''SPY: rise >= 1%, Timestamp: 2024-01-02 10:00:00''
          (Some ''+15550100'') (Some ''+15550199'')]
   \<and> monitor_loop every_round
        (same_world (example_world feed_open (Some ''TwilioRestException''))) 0 (Suc 2)
        started_system =
       check_price (example_world feed_open (Some ''TwilioRestException'')) started_system"
proof -
  let ?w = "example_world feed_open (Some ''TwilioRestException'')"
  have h1: "tickers started_system = [] @ ''SPY'' # [''IWM'', ''QQQ'']" by simp
  have h2: "raised (check_loop ?w [] started_system) = None" by simp
  have h3: "last_price ?w ''SPY'' = Price 101.5" by (simp add: feed_open_def)
  have h4: "prev_close_prices started_system ''SPY'' = Some 100" by simp
  have h5: "\<bar>pct_change 101.5 100\<bar> \<ge> 1" by (simp add: pct_change_def)
  have h6: "messages_create ?w (alert_msg ''SPY'' (direction (pct_change 101.5 100)) (now ?w ''SPY''))
      (twilio_number started_system) (phone_number started_system) = Some ''TwilioRestException''"
    by simp
  have m: "alert_msg ''SPY'' (direction (pct_change 101.5 100)) (now ?w ''SPY'') =
      ''SPY: rise >= 1%, Timestamp: 2024-01-02 10:00:00''"
    by (simp add: alert_msg_def direction_def pct_change_def)
  have d: "every_round 0 \<and> same_world ?w 0 = ?w"
    by (simp add: every_round_def same_world_def)
  note main = transport_failure_propagates [OF h1 h2 h3 h4 h5 h6]
  from main have r: "raised (check_price ?w started_system) = Some (TransportError ''TwilioRestException'')"
    by blast
  from main m have ev: "events (check_price ?w started_system) =
       [FastInfo ''SPY'',
        Sms ''SPY: rise >= 1%, Timestamp: 2024-01-02 10:00:00''
          (Some ''+15550100'') (Some ''+15550199'')]"
    by simp
  from main d have run: "monitor_loop every_round (same_world ?w) 0 (Suc 2) started_system =
       check_price ?w started_system"
    by blast
  from h1 h2 h3 h4 h5 r ev run show ?thesis by blast
qed

subsection \<open>The scenarios of the threshold\<close>

text \<open>
  C7, as the code has it: with the previous close 100.0 for a symbol, the current price
  101.5 gives the change 1.5 and exactly one message, labelled \<^verbatim>\<open>rise\<close>; the current
  price 99.2 gives the change \<open>-7205759403792769 / 2 ^ 53\<close>, which is about
  \<open>-0.7999999999999973\<close> and within \<open>1 / 10 ^ 14\<close> of \<open>-0.8\<close>, and no message; the current
  price 98.9 gives the change \<open>-38702809297715 / 2 ^ 45\<close>, which is about
  \<open>-1.0999999999999943\<close> and within \<open>1 / 10 ^ 14\<close> of \<open>-1.1\<close>, and exactly one message,
  labelled \<^verbatim>\<open>drop\<close>. The prices are the float64 numbers that the literals denote and
  the changes are those of float64 arithmetic.
\<close>

theorem threshold_scenarios:
  assumes "prev_close_prices s t = Some 100.0"
  shows "(\<forall>c. float64 101.5 = Some c \<and> last_price w t = Price c \<longrightarrow>
            pct_change_float64 c 100.0 = Some 1.5
          \<and> events (check_one w s t) =
              [FastInfo t,
               Sms (t @ '': rise >= 1%, Timestamp: '' @ now w t) (twilio_number s) (phone_number s)]
          \<and> length (notifications (events (check_one w s t))) = 1)
    \<and> (\<forall>c. float64 99.2 = Some c \<and> last_price w t = Price c \<longrightarrow>
            pct_change_float64 c 100.0 = Some (- (7205759403792769 / 2 ^ 53))
          \<and> \<bar>- (7205759403792769 / 2 ^ 53) - (- 0.8 :: rat)\<bar> < 1 / 10 ^ 14
          \<and> \<bar>- (7205759403792769 / 2 ^ 53) :: rat\<bar> < 1
          \<and> events (check_one w s t) = [FastInfo t]
          \<and> length (notifications (events (check_one w s t))) = 0)
    \<and> (\<forall>c. float64 98.9 = Some c \<and> last_price w t = Price c \<longrightarrow>
            pct_change_float64 c 100.0 = Some (- (38702809297715 / 2 ^ 45))
          \<and> \<bar>- (38702809297715 / 2 ^ 45) - (- 1.1 :: rat)\<bar> < 1 / 10 ^ 14
          \<and> \<bar>- (38702809297715 / 2 ^ 45) :: rat\<bar> \<ge> 1
          \<and> events (check_one w s t) =
              [FastInfo t,
               Sms (t @ '': drop >= 1%, Timestamp: '' @ now w t) (twilio_number s) (phone_number s)]
          \<and> length (notifications (events (check_one w s t))) = 1)"
proof -
  have b: "prev_close_prices s t = Some 100"
    using assms by simp
  have rise: "last_price w t = Price (203 / 2) \<Longrightarrow>
      events (check_one w s t) =
        [FastInfo t,
         Sms (t @ '': rise >= 1%, Timestamp: '' @ now w t) (twilio_number s) (phone_number s)]"
    using b
    by (simp add: check_one_def pct_change_def direction_def alert_msg_def send_sms_def
        split: option.split)
  have none: "last_price w t = Price (6980579422424269 / 70368744177664) \<Longrightarrow>
      events (check_one w s t) = [FastInfo t]"
    using b by (simp add: check_one_def pct_change_def)
  have drop: "last_price w t = Price (3479734399585485 / 35184372088832) \<Longrightarrow>
      events (check_one w s t) =
        [FastInfo t,
         Sms (t @ '': drop >= 1%, Timestamp: '' @ now w t) (twilio_number s) (phone_number s)]"
    using b
    by (simp add: check_one_def pct_change_def direction_def alert_msg_def send_sms_def
        split: option.split)
  have v1: "pct_change_float64 (203 / 2) 100.0 = Some 1.5"
    using pct_change_float64_values(1) by simp
  have v2: "pct_change_float64 (6980579422424269 / 70368744177664) 100.0 =
      Some (- (7205759403792769 / 2 ^ 53))"
    using pct_change_float64_values(2) by simp
  have v3: "pct_change_float64 (3479734399585485 / 35184372088832) 100.0 =
      Some (- (38702809297715 / 2 ^ 45))"
    using pct_change_float64_values(3) by simp
  have n2: "\<bar>- (7205759403792769 / 2 ^ 53) - (- 0.8 :: rat)\<bar> < 1 / 10 ^ 14"
    and m2: "\<bar>- (7205759403792769 / 2 ^ 53) :: rat\<bar> < 1"
    by simp_all
  have n3: "\<bar>- (38702809297715 / 2 ^ 45) - (- 1.1 :: rat)\<bar> < 1 / 10 ^ 14"
    and m3: "\<bar>- (38702809297715 / 2 ^ 45) :: rat\<bar> \<ge> 1"
    by simp_all
  have p1: "\<forall>c. float64 101.5 = Some c \<and> last_price w t = Price c \<longrightarrow>
            pct_change_float64 c 100.0 = Some 1.5
          \<and> events (check_one w s t) =
              [FastInfo t,
               Sms (t @ '': rise >= 1%, Timestamp: '' @ now w t) (twilio_number s) (phone_number s)]
          \<and> length (notifications (events (check_one w s t))) = 1"
  proof (intro allI impI)
    fix c
    assume a: "float64 101.5 = Some c \<and> last_price w t = Price c"
    with float64_literals(2) have c: "c = 203 / 2"
      by (metis option.inject)
    with a have lp: "last_price w t = Price (203 / 2)"
      by blast
    have "length (notifications (events (check_one w s t))) = 1"
      by (simp add: rise [OF lp])
    with rise [OF lp] v1
    show "pct_change_float64 c 100.0 = Some 1.5
          \<and> events (check_one w s t) =
              [FastInfo t,
               Sms (t @ '': rise >= 1%, Timestamp: '' @ now w t) (twilio_number s) (phone_number s)]
          \<and> length (notifications (events (check_one w s t))) = 1"
      unfolding c by blast
  qed
  have p2: "\<forall>c. float64 99.2 = Some c \<and> last_price w t = Price c \<longrightarrow>
            pct_change_float64 c 100.0 = Some (- (7205759403792769 / 2 ^ 53))
          \<and> \<bar>- (7205759403792769 / 2 ^ 53) - (- 0.8 :: rat)\<bar> < 1 / 10 ^ 14
          \<and> \<bar>- (7205759403792769 / 2 ^ 53) :: rat\<bar> < 1
          \<and> events (check_one w s t) = [FastInfo t]
          \<and> length (notifications (events (check_one w s t))) = 0"
  proof (intro allI impI)
    fix c
    assume a: "float64 99.2 = Some c \<and> last_price w t = Price c"
    with float64_literals(3) have c: "c = 6980579422424269 / 70368744177664"
      by (metis option.inject)
    with a have lp: "last_price w t = Price (6980579422424269 / 70368744177664)"
      by blast
    have "length (notifications (events (check_one w s t))) = 0"
      by (simp add: none [OF lp])
    with none [OF lp] v2 n2 m2
    show "pct_change_float64 c 100.0 = Some (- (7205759403792769 / 2 ^ 53))
          \<and> \<bar>- (7205759403792769 / 2 ^ 53) - (- 0.8 :: rat)\<bar> < 1 / 10 ^ 14
          \<and> \<bar>- (7205759403792769 / 2 ^ 53) :: rat\<bar> < 1
          \<and> events (check_one w s t) = [FastInfo t]
          \<and> length (notifications (events (check_one w s t))) = 0"
      unfolding c by blast
  qed
  have p3: "\<forall>c. float64 98.9 = Some c \<and> last_price w t = Price c \<longrightarrow>
            pct_change_float64 c 100.0 = Some (- (38702809297715 / 2 ^ 45))
          \<and> \<bar>- (38702809297715 / 2 ^ 45) - (- 1.1 :: rat)\<bar> < 1 / 10 ^ 14
          \<and> \<bar>- (38702809297715 / 2 ^ 45) :: rat\<bar> \<ge> 1
          \<and> events (check_one w s t) =
              [FastInfo t,
               Sms (t @ '': drop >= 1%, Timestamp: '' @ now w t) (twilio_number s) (phone_number s)]
          \<and> length (notifications (events (check_one w s t))) = 1"
  proof (intro allI impI)
    fix c
    assume a: "float64 98.9 = Some c \<and> last_price w t = Price c"
    with float64_literals(4) have c: "c = 3479734399585485 / 35184372088832"
      by (metis option.inject)
    with a have lp: "last_price w t = Price (3479734399585485 / 35184372088832)"
      by blast
    have "length (notifications (events (check_one w s t))) = 1"
      by (simp add: drop [OF lp])
    with drop [OF lp] v3 n3 m3
    show "pct_change_float64 c 100.0 = Some (- (38702809297715 / 2 ^ 45))
          \<and> \<bar>- (38702809297715 / 2 ^ 45) - (- 1.1 :: rat)\<bar> < 1 / 10 ^ 14
          \<and> \<bar>- (38702809297715 / 2 ^ 45) :: rat\<bar> \<ge> 1
          \<and> events (check_one w s t) =
              [FastInfo t,
               Sms (t @ '': drop >= 1%, Timestamp: '' @ now w t) (twilio_number s) (phone_number s)]
          \<and> length (notifications (events (check_one w s t))) = 1"
      unfolding c by blast
  qed
  from p1 p2 p3 show ?thesis by blast
qed

text \<open>The three scenarios at \<^verbatim>\<open>SPY\<close>, whose previous close is 100.\<close>

theorem threshold_scenarios_witness:
  "prev_close_prices started_system ''SPY'' = Some 100.0
   \<and> float64 101.5 = Some (203 / 2)
   \<and> last_price (example_world (feed_flat (203 / 2)) None) ''SPY'' = Price (203 / 2)
   \<and> pct_change_float64 (203 / 2) 100.0 = Some 1.5
   \<and> notifications (events (check_one (example_world (feed_flat (203 / 2)) None)
        started_system ''SPY'')) = [''SPY: rise >= 1%, Timestamp: 2024-01-02 10:00:00'']
   \<and> float64 99.2 = Some (6980579422424269 / 70368744177664)
   \<and> last_price (example_world (feed_flat (6980579422424269 / 70368744177664)) None) ''SPY''
        = Price (6980579422424269 / 70368744177664)
   \<and> pct_change_float64 (6980579422424269 / 70368744177664) 100.0 =
        Some (- (7205759403792769 / 2 ^ 53))
   \<and> notifications (events (check_one
        (example_world (feed_flat (6980579422424269 / 70368744177664)) None)
        started_system ''SPY'')) = []
   \<and> float64 98.9 = Some (3479734399585485 / 35184372088832)
   \<and> last_price (example_world (feed_flat (3479734399585485 / 35184372088832)) None) ''SPY''
        = Price (3479734399585485 / 35184372088832)
   \<and> pct_change_float64 (3479734399585485 / 35184372088832) 100.0 =
        Some (- (38702809297715 / 2 ^ 45))
   \<and> notifications (events (check_one
        (example_world (feed_flat (3479734399585485 / 35184372088832)) None)
        started_system ''SPY'')) = [''SPY: drop >= 1%, Timestamp: 2024-01-02 10:00:00'']"
proof -
  let ?w1 = "example_world (feed_flat (203 / 2)) None"
  let ?w2 = "example_world (feed_flat (6980579422424269 / 70368744177664)) None"
  let ?w3 = "example_world (feed_flat (3479734399585485 / 35184372088832)) None"
  have b: "prev_close_prices started_system ''SPY'' = Some 100.0" by simp
  have f1: "float64 101.5 = Some (203 / 2)" by (rule float64_literals(2))
  have f2: "float64 99.2 = Some (6980579422424269 / 70368744177664)"
    by (rule float64_literals(3))
  have f3: "float64 98.9 = Some (3479734399585485 / 35184372088832)"
    by (rule float64_literals(4))
  have p1: "last_price ?w1 ''SPY'' = Price (203 / 2)" by (simp add: feed_flat_def)
  have p2: "last_price ?w2 ''SPY'' = Price (6980579422424269 / 70368744177664)"
    by (simp add: feed_flat_def)
  have p3: "last_price ?w3 ''SPY'' = Price (3479734399585485 / 35184372088832)"
    by (simp add: feed_flat_def)
  from threshold_scenarios [OF b, of ?w1] f1 p1
  have e1: "pct_change_float64 (203 / 2) 100.0 = Some 1.5
      \<and> events (check_one ?w1 started_system ''SPY'') =
          [FastInfo ''SPY'',
           Sms (''SPY'' @ '': rise >= 1%, Timestamp: '' @ now ?w1 ''SPY'')
             (twilio_number started_system) (phone_number started_system)]"
    by blast
  then have r1: "pct_change_float64 (203 / 2) 100.0 = Some 1.5
      \<and> notifications (events (check_one ?w1 started_system ''SPY''))
          = [''SPY: rise >= 1%, Timestamp: 2024-01-02 10:00:00'']"
    by simp
  from threshold_scenarios [OF b, of ?w2] f2 p2
  have e2: "pct_change_float64 (6980579422424269 / 70368744177664) 100.0 =
        Some (- (7205759403792769 / 2 ^ 53))
      \<and> events (check_one ?w2 started_system ''SPY'') = [FastInfo ''SPY'']"
    by blast
  then have r2: "pct_change_float64 (6980579422424269 / 70368744177664) 100.0 =
        Some (- (7205759403792769 / 2 ^ 53))
      \<and> notifications (events (check_one ?w2 started_system ''SPY'')) = []"
    by simp
  from threshold_scenarios [OF b, of ?w3] f3 p3
  have e3: "pct_change_float64 (3479734399585485 / 35184372088832) 100.0 =
        Some (- (38702809297715 / 2 ^ 45))
      \<and> events (check_one ?w3 started_system ''SPY'') =
          [FastInfo ''SPY'',
           Sms (''SPY'' @ '': drop >= 1%, Timestamp: '' @ now ?w3 ''SPY'')
             (twilio_number started_system) (phone_number started_system)]"
    by blast
  then have r3: "pct_change_float64 (3479734399585485 / 35184372088832) 100.0 =
        Some (- (38702809297715 / 2 ^ 45))
      \<and> notifications (events (check_one ?w3 started_system ''SPY''))
          = [''SPY: drop >= 1%, Timestamp: 2024-01-02 10:00:00'']"
    by simp
  from b f1 f2 f3 p1 p2 p3 r1 r2 r3 show ?thesis by blast
qed

text \<open>
  The claim as worded gives the change at 99.2 as -0.8 and at 98.9 as -1.1. The code
  computes neither: its values differ from the decimal numbers and from the float64
  numbers nearest to them.
\<close>

theorem threshold_scenarios_counterexample:
  "float64 99.2 = Some (6980579422424269 / 70368744177664)
   \<and> pct_change_float64 (6980579422424269 / 70368744177664) 100.0 =
        Some (- (7205759403792769 / 9007199254740992))
   \<and> - (7205759403792769 / 9007199254740992) \<noteq> (- 0.8 :: rat)
   \<and> float64 (- 0.8) \<noteq> Some (- (7205759403792769 / 9007199254740992))
   \<and> float64 98.9 = Some (3479734399585485 / 35184372088832)
   \<and> pct_change_float64 (3479734399585485 / 35184372088832) 100.0 =
        Some (- (38702809297715 / 35184372088832))
   \<and> - (38702809297715 / 35184372088832) \<noteq> (- 1.1 :: rat)
   \<and> float64 (- 1.1) \<noteq> Some (- (38702809297715 / 35184372088832))"
  using float64_literals pct_change_float64_values by simp

subsection \<open>A ticker without a baseline\<close>

text \<open>
  C2 asks that a tracked ticker without an entry in the table be left out of every tick
  while the other tickers are evaluated. The code does otherwise: \<^verbatim>\<open>check_price\<close> walks
  over all tickers, and the lookup \<^verbatim>\<open>self.prev_close_prices[ticker]\<close> stands outside the
  \<^verbatim>\<open>try\<close>. Here \<^verbatim>\<open>IWM\<close> has no history at startup and every ticker trades at 105 on the
  tick: the price of \<^verbatim>\<open>IWM\<close> is looked up, \<^verbatim>\<open>KeyError\<close> leaves \<^verbatim>\<open>check_price\<close>, and
  \<^verbatim>\<open>QQQ\<close> is not evaluated.
\<close>

theorem missing_baseline_aborts_tick:
  "prev_close_prices (state (get_prev_close_prices (example_world (feed_flat 105) None)
      fresh_system)) ''IWM'' = None
   \<and> raised (check_price (example_world (feed_flat 105) None)
        (state (get_prev_close_prices (example_world (feed_flat 105) None) fresh_system))) =
       Some (KeyError ''IWM'')
   \<and> events (check_price (example_world (feed_flat 105) None)
        (state (get_prev_close_prices (example_world (feed_flat 105) None) fresh_system))) =
       [FastInfo ''SPY'',
        Sms ''SPY: rise >= 1%, Timestamp: 2024-01-02 10:00:00''
          (Some ''+15550100'') (Some ''+15550199''),
        FastInfo ''IWM'']
   \<and> raised (start_monitoring (example_world (feed_flat 105) None) every_round
        (same_world (example_world (feed_flat 105) None)) (Suc 2) fresh_system) =
       Some (KeyError ''IWM'')"
proof -
  let ?w = "example_world (feed_flat 105) None"
  have st: "state (get_prev_close_prices ?w fresh_system) =
      fresh_system\<lparr>prev_close_prices := [''SPY'' \<mapsto> 100, ''QQQ'' \<mapsto> 199]\<rparr>"
    by (simp add: get_prev_close_prices_def example_history_def prev_close_of_def Let_def
        fresh_system_def init_def returns_def after_def)
  have tick: "check_price ?w (fresh_system\<lparr>prev_close_prices := [''SPY'' \<mapsto> 100, ''QQQ'' \<mapsto> 199]\<rparr>) =
      raises (fresh_system\<lparr>prev_close_prices := [''SPY'' \<mapsto> 100, ''QQQ'' \<mapsto> 199]\<rparr>)
        [FastInfo ''SPY'',
         Sms ''SPY: rise >= 1%, Timestamp: 2024-01-02 10:00:00''
           (Some ''+15550100'') (Some ''+15550199''),
         FastInfo ''IWM'']
        (KeyError ''IWM'')"
    by (simp add: check_price_def check_one_def feed_flat_def pct_change_def direction_def
        alert_msg_def send_sms_def Let_def returns_def raises_def after_def)
  have rg: "raised (get_prev_close_prices ?w fresh_system) = None"
    by (simp only: get_prev_close_prices_def raised_get_prev_close_loop)
  have run: "raised (start_monitoring ?w every_round (same_world ?w) (Suc 2) fresh_system) =
      Some (KeyError ''IWM'')"
    by (simp add: start_monitoring_def Let_def rg st tick every_round_def same_world_def
        del: Suc_numeral)
  from st tick run show ?thesis by simp
qed

end
